theory Spec2Isabelle
  imports Complex_Main "HOL-Library.Word" "HOL-Library.Sublist"
begin

unbundle bit_operations_syntax

section \<open>Stubber: a configurable mock HTTP server with scripted endpoints\<close>

text \<open>
  A shallow embedding of the richest variant of \<^verbatim>\<open>main.go\<close> (the one with the goja
  script runtime, the OpenAPI generator and path parameters). Go structs are records, Go's
  \<^verbatim>\<open>any\<close> is a datatype of dynamic values, Go maps are partial functions, and the
  effects on the \<^verbatim>\<open>http.ResponseWriter\<close> and on the pool of script runtimes are
  passed explicitly.
\<close>

subsection \<open>Identifier generator: \<^verbatim>\<open>hexChar\<close>, \<^verbatim>\<open>sprintf\<close>, \<^verbatim>\<open>generateUUID\<close>\<close>

type_synonym byte = "8 word"

definition hex :: string where
  "hex = ''0123456789abcdef''"

text \<open>\<^verbatim>\<open>return string(hex[b&0x0f])\<close>\<close>

definition hexChar :: "byte \<Rightarrow> string" where
  "hexChar b = [hex ! unat (b AND 0x0f)]"

text \<open>
  The variadic arguments of \<^verbatim>\<open>sprintf\<close> are \<^verbatim>\<open>any\<close>; only a byte slice is
  formatted, every other argument consumes its verb and prints nothing.
\<close>

datatype fmt_arg = ABytes "byte list" | AOther

text \<open>\<^verbatim>\<open>result += hexChar(v>>4) + hexChar(v&0x0f)\<close> for one byte, then for a slice.\<close>

definition hexByte :: "byte \<Rightarrow> string" where
  "hexByte v = hexChar (drop_bit 4 v) @ hexChar (v AND 0x0f)"

definition hexBytes :: "byte list \<Rightarrow> string" where
  "hexBytes b = concat (map hexByte b)"

text \<open>
  The loop over the bytes of the format, as a recursion on the rest of the format and the
  rest of the arguments (\<^verbatim>\<open>format[i:]\<close> and \<^verbatim>\<open>a[argIdx:]\<close>). A \<^verbatim>\<open>%x\<close> takes
  two bytes of the format; with no argument left it prints nothing.
\<close>

fun sprintf :: "string \<Rightarrow> fmt_arg list \<Rightarrow> string" where
  "sprintf [] a = []"
| "sprintf [c] a = [c]"
| "sprintf (c # d # fs) a =
     (if c = CHR ''%'' \<and> d = CHR ''x'' then
        (case a of
           [] \<Rightarrow> sprintf fs []
         | x # a' \<Rightarrow>
             (case x of ABytes b \<Rightarrow> hexBytes b | AOther \<Rightarrow> []) @ sprintf fs a')
      else c # sprintf (d # fs) a)"

text \<open>The Go slice expression \<^verbatim>\<open>b[lo:hi]\<close> (always within range where it is used).\<close>

definition slice :: "nat \<Rightarrow> nat \<Rightarrow> 'a list \<Rightarrow> 'a list" where
  "slice lo hi xs = take (hi - lo) (drop lo xs)"

text \<open>
  \<^verbatim>\<open>time.Now().UnixNano()\<close> is read once for each of the 16 bytes; \<open>now i\<close> is the
  \<^verbatim>\<open>int64\<close> read for byte \<open>i\<close>. \<^verbatim>\<open>>>\<close> on a signed integer is the arithmetic
  shift, also for a shift count of 64 and more, and \<^verbatim>\<open>byte(...)\<close> keeps the low 8 bits.
\<close>

definition clockBytes :: "(nat \<Rightarrow> 64 word) \<Rightarrow> byte list" where
  "clockBytes now = map (\<lambda>i. ucast (signed_drop_bit (i * 8) (now i))) [0..<16]"

definition generateUUID :: "(nat \<Rightarrow> 64 word) \<Rightarrow> string" where
  "generateUUID now =
     (let b = clockBytes now;
          b = b[6 := (b ! 6 AND 0x0f) OR 0x40];
          b = b[8 := (b ! 8 AND 0x3f) OR 0x80]
      in sprintf ''%x-%x-%x-%x-%x''
           [ABytes (slice 0 4 b), ABytes (slice 4 6 b), ABytes (slice 6 8 b),
            ABytes (slice 8 10 b), ABytes (slice 10 16 b)])"

subsection \<open>OpenAPI response keys: \<^verbatim>\<open>statusCodeToString\<close>\<close>


subsection \<open>Dynamic values and the configuration\<close>

text \<open>
  Go's \<^verbatim>\<open>any\<close>, as far as JSON decoding and goja's \<^verbatim>\<open>Export\<close> produce it:
  \<^verbatim>\<open>nil\<close>, \<^verbatim>\<open>bool\<close>, \<^verbatim>\<open>int64\<close>, \<^verbatim>\<open>float64\<close>, \<^verbatim>\<open>string\<close>,
  \<^verbatim>\<open>[]any\<close> and \<^verbatim>\<open>map[string]any\<close>. A Go map is a partial function: its keys are
  unique and its iteration order is never observed by the code below. A \<^verbatim>\<open>float64\<close> is
  a finite value (given as a rational), an infinity or a NaN; no arithmetic is done on them.
\<close>

datatype float64 = Finite rat | PosInf | NegInf | NaN

datatype go_any =
    GNil
  | GBool bool
  | GInt64 int
  | GFloat64 float64
  | GString string
  | GSlice "go_any list"
  | GMap "string \<Rightarrow> go_any option"

record Endpoint =
  Path :: string
  Method :: string
  StatusCode :: int
  Response :: go_any
  Headers :: "string \<Rightarrow> string option"
  Summary :: string
  Description :: string
  Tags :: "string list"
  Script :: string
  Context :: "string \<Rightarrow> go_any option"



record RequestData =
  rd_Method :: string
  rd_Path :: string
  rd_Query :: "string \<Rightarrow> string option"
  rd_Headers :: "string \<Rightarrow> string option"
  rd_Body :: go_any
  rd_Params :: "string \<Rightarrow> string option"

record ScriptResult =
  sr_Body :: go_any
  sr_StatusCode :: int
  sr_Headers :: "string \<Rightarrow> string option"

subsection \<open>The script runtime and its pool\<close>

text \<open>
  What \<^verbatim>\<open>vm.Set\<close> binds in the global object of a goja runtime: the console object, the
  three Go functions, the request data, and plain values (the endpoint's context values,
  and whatever a script stores itself).
\<close>

datatype js_binding =
    BConsole
  | BFunc string
  | BRequest RequestData
  | BValue go_any

record Runtime =
  globals :: "string \<Rightarrow> js_binding option"
  interrupt :: bool

text \<open>\<^verbatim>\<open>goja.New()\<close>: no binding of the program's own, no pending interrupt.\<close>

definition goja_New :: Runtime where
  "goja_New = \<lparr>globals = Map.empty, interrupt = False\<rparr>"

definition vm_Set :: "string \<Rightarrow> js_binding \<Rightarrow> Runtime \<Rightarrow> Runtime" where
  "vm_Set name v vm = vm\<lparr>globals := (globals vm)(name \<mapsto> v)\<rparr>"

text \<open>\<^verbatim>\<open>for key, value := range context { vm.Set(key, value) }\<close>\<close>

definition vm_SetContext :: "(string \<Rightarrow> go_any option) \<Rightarrow> Runtime \<Rightarrow> Runtime" where
  "vm_SetContext context vm = vm\<lparr>globals := globals vm ++ (map_option BValue \<circ> context)\<rparr>"

definition ClearInterrupt :: "Runtime \<Rightarrow> Runtime" where
  "ClearInterrupt vm = vm\<lparr>interrupt := False\<rparr>"

text \<open>
  The value a script evaluates to: Go's \<^verbatim>\<open>nil\<close>, JavaScript's \<^verbatim>\<open>undefined\<close> and
  \<^verbatim>\<open>null\<close>, or a value given by what its \<^verbatim>\<open>Export()\<close> returns.
\<close>

datatype goja_Value = VNil | VUndefined | VNull | VExport go_any

text \<open>
  The JavaScript interpreter, the JSON package, two library functions on strings and the
  part of a conversion that Go leaves to the implementation are taken as parameters:
  \<^item> \<open>RunString lib script vm\<close> is the error message or the value of
    \<^verbatim>\<open>vm.RunString(script)\<close> together with the runtime as the script leaves it;
  \<^item> \<open>Unmarshal lib bytes\<close> is the decoded value, \<open>None\<close> when \<^verbatim>\<open>json.Unmarshal\<close>
    returns an error;
  \<^item> \<open>Encodable lib v\<close> says whether the JSON encoder accepts \<open>v\<close> (it refuses a NaN and
    an infinity, for one);
  \<^item> \<open>IntOfFloat64 lib f\<close> is the \<^verbatim>\<open>int\<close> that \<^verbatim>\<open>int(f)\<close> gives where the language leaves
    it to the implementation: for a NaN, an infinity and a value whose integer part is
    outside the 64 bits of an \<^verbatim>\<open>int\<close>;
  \<^item> \<open>ToLower lib\<close> is \<^verbatim>\<open>strings.ToLower\<close>;
  \<^item> \<open>FindAllStringSubmatch lib s\<close> is \<^verbatim>\<open>re.FindAllStringSubmatch(s, -1)\<close> for the
    regular expression of \<^verbatim>\<open>extractPathParams\<close>.
\<close>

record Lib =
  RunString :: "string \<Rightarrow> Runtime \<Rightarrow> (string + goja_Value) \<times> Runtime"
  Unmarshal :: "string \<Rightarrow> go_any option"
  Encodable :: "go_any \<Rightarrow> bool"
  IntOfFloat64 :: "float64 \<Rightarrow> 64 word"
  ToLower :: "string \<Rightarrow> string"
  FindAllStringSubmatch :: "string \<Rightarrow> string list list"

text \<open>
  The conversion \<^verbatim>\<open>int(code)\<close> of a \<^verbatim>\<open>float64\<close>, with \<^verbatim>\<open>int\<close> of 64 bits: the fraction
  is discarded (truncation towards zero) when the result is an \<^verbatim>\<open>int\<close>; otherwise the
  result is the implementation's.
\<close>

definition float64_to_int :: "Lib \<Rightarrow> float64 \<Rightarrow> int" where
  "float64_to_int lib f =
     (case f of
        Finite q \<Rightarrow>
          (let t = (if 0 \<le> q then \<lfloor>q\<rfloor> else \<lceil>q\<rceil>) in
           if - (2 ^ 63) \<le> t \<and> t < 2 ^ 63 then t else sint (IntOfFloat64 lib f))
      | _ \<Rightarrow> sint (IntOfFloat64 lib f))"

text \<open>
  \<^verbatim>\<open>sync.Pool\<close> as a list of idle runtimes: \<^verbatim>\<open>Get\<close> takes one, or makes a new one with
  \<^verbatim>\<open>New\<close> when none is idle; \<^verbatim>\<open>Put\<close> gives one back.
\<close>

definition pool_Get :: "Runtime list \<Rightarrow> Runtime \<times> Runtime list" where
  "pool_Get pool = (case pool of [] \<Rightarrow> (goja_New, []) | vm # rest \<Rightarrow> (vm, rest))"

definition pool_Put :: "Runtime \<Rightarrow> Runtime list \<Rightarrow> Runtime list" where
  "pool_Put vm pool = vm # pool"

text \<open>The bindings \<^verbatim>\<open>Execute\<close> sets before it runs the script, in the source's order.\<close>

definition bindRequest ::
  "RequestData \<Rightarrow> (string \<Rightarrow> go_any option) \<Rightarrow> Runtime \<Rightarrow> Runtime" where
  "bindRequest req context vm =
     vm_SetContext context
       (vm_Set ''request'' (BRequest req)
         (vm_Set ''req'' (BRequest req)
           (vm_Set ''timestamp'' (BFunc ''timestamp'')
             (vm_Set ''now'' (BFunc ''now'')
               (vm_Set ''uuid'' (BFunc ''uuid'')
                 (vm_Set ''console'' BConsole vm))))))"

text \<open>The entries of a \<^verbatim>\<open>map[string]any\<close> whose value is a string.\<close>

definition stringEntries :: "(string \<Rightarrow> go_any option) \<Rightarrow> (string \<Rightarrow> string option)" where
  "stringEntries h = (\<lambda>k. case h k of Some (GString s) \<Rightarrow> Some s | _ \<Rightarrow> None)"

text \<open>
  The second half of \<^verbatim>\<open>Execute\<close> (``Handle the result''): from the script's value to the
  \<^verbatim>\<open>ScriptResult\<close>, which starts as \<^verbatim>\<open>&ScriptResult{StatusCode: 200}\<close>. The conversion
  \<^verbatim>\<open>int(code)\<close> of an \<^verbatim>\<open>int64\<close> is the value itself, \<^verbatim>\<open>int\<close> having 64 bits.
\<close>

definition wholeValue :: "go_any \<Rightarrow> ScriptResult" where
  "wholeValue exported = \<lparr>sr_Body = exported, sr_StatusCode = 200, sr_Headers = Map.empty\<rparr>"

definition handleResult :: "Lib \<Rightarrow> goja_Value \<Rightarrow> ScriptResult" where
  "handleResult lib val =
     (case val of
        VExport exported \<Rightarrow>
          (case exported of
             GMap m \<Rightarrow>
               (case m ''body'' of
                  Some body \<Rightarrow>
                    \<lparr>sr_Body = body,
                     sr_StatusCode =
                       (case m ''statusCode'' of
                          Some (GInt64 code) \<Rightarrow> code
                        | Some (GFloat64 code) \<Rightarrow> float64_to_int lib code
                        | _ \<Rightarrow> 200),
                     sr_Headers =
                       (case m ''headers'' of
                          Some (GMap h) \<Rightarrow> stringEntries h
                        | _ \<Rightarrow> Map.empty)\<rparr>
                | None \<Rightarrow> wholeValue exported)
           | _ \<Rightarrow> wholeValue exported)
      | _ \<Rightarrow> \<lparr>sr_Body = GNil, sr_StatusCode = 200, sr_Headers = Map.empty\<rparr>)"

text \<open>
  \<^verbatim>\<open>Execute\<close>. The deferred function runs on both ways out: it clears the interrupt flag
  and puts the runtime back, with the global object as the script left it.
\<close>

definition Execute ::
  "Lib \<Rightarrow> Runtime list \<Rightarrow> string \<Rightarrow> RequestData \<Rightarrow> (string \<Rightarrow> go_any option)
     \<Rightarrow> (string + ScriptResult) \<times> Runtime list" where
  "Execute lib pool script req context =
     (let (vm, idle) = pool_Get pool;
          (val, vm') = RunString lib script (bindRequest req context vm);
          pool' = pool_Put (ClearInterrupt vm') idle
      in case val of
           Inl err \<Rightarrow> (Inl err, pool')
         | Inr v \<Rightarrow> (Inr (handleResult lib v), pool'))"

subsection \<open>Path parameters: \<^verbatim>\<open>extractPathValues\<close>\<close>

text \<open>\<^verbatim>\<open>strings.Split(s, "/")\<close>, for a separator of one byte: \<open>n\<close> separators give \<open>n + 1\<close> parts.\<close>

fun Split :: "string \<Rightarrow> char \<Rightarrow> string list" where
  "Split [] sep = [[]]"
| "Split (c # cs) sep =
     (if c = sep then [] # Split cs sep
      else (case Split cs sep of [] \<Rightarrow> [[c]] | p # ps \<Rightarrow> (c # p) # ps))"

text \<open>
  One turn of the loop over the parts of the pattern: \<open>part\<close> is \<^verbatim>\<open>patternParts[i]\<close> and
  \<open>seg\<close> is \<^verbatim>\<open>pathParts[i]\<close>. \<^verbatim>\<open>strings.HasPrefix\<close> and \<^verbatim>\<open>strings.HasSuffix\<close> are
  \<open>prefix\<close> and \<open>suffix\<close>; a part with both has at least two bytes.
\<close>

definition bindPart ::
  "string \<times> string \<Rightarrow> (string \<Rightarrow> string option) \<Rightarrow> (string \<Rightarrow> string option)" where
  "bindPart ps result =
     (let part = fst ps; seg = snd ps in
      if prefix ''{'' part \<and> suffix ''}'' part
      then result(slice 1 (length part - 1) part \<mapsto> seg)
      else result)"

definition extractPathValues :: "string \<Rightarrow> string \<Rightarrow> (string \<Rightarrow> string option)" where
  "extractPathValues pattern path =
     (let patternParts = Split pattern CHR ''/'';
          pathParts = Split path CHR ''/''
      in if length patternParts \<noteq> length pathParts then Map.empty
         else fold bindPart (zip patternParts pathParts) Map.empty)"

subsection \<open>The response writer and the request\<close>

text \<open>
  The \<^verbatim>\<open>http.ResponseWriter\<close> of \<^verbatim>\<open>net/http\<close>'s server, by the documented behaviour of
  its methods: the header map, the status of the response (\<open>None\<close> until it is set), the
  informational statuses sent before it, what was written (bytes, or \<open>JSON v\<close> for the
  encoder's output for \<open>v\<close>), and the panic that ended the handler, if any. Header names
  are taken as written (their canonical form is not modelled), and so is a
  \<^verbatim>\<open>Content-Length\<close> set by the handler, which in \<^verbatim>\<open>net/http\<close> limits what \<^verbatim>\<open>Write\<close>
  accepts: \<open>declaresLength\<close> says of a header name that it is \<^verbatim>\<open>Content-Length\<close> in some
  case of its letters.
\<close>

definition lowerASCII :: "string \<Rightarrow> string" where
  "lowerASCII s =
     map (\<lambda>c. if (65::nat) \<le> of_char c \<and> of_char c \<le> (90::nat)
               then char_of (of_char c + (32::nat)) else c) s"


datatype written = Bytes string | JSON go_any

datatype panic = InvalidPattern | MultipleRegistrations string | InvalidWriteHeaderCode int

record ResponseWriter =
  rw_Header :: "string \<Rightarrow> string option"
  rw_Status :: "int option"
  rw_Body :: "written list"
  rw_Informational :: "int list"
  rw_Panic :: "panic option"

definition newResponseWriter :: ResponseWriter where
  "newResponseWriter =
     \<lparr>rw_Header = Map.empty, rw_Status = None, rw_Body = [], rw_Informational = [],
      rw_Panic = None\<rparr>"

definition Header_Set :: "string \<Rightarrow> string \<Rightarrow> ResponseWriter \<Rightarrow> ResponseWriter" where
  "Header_Set k v w = w\<lparr>rw_Header := (rw_Header w)(k \<mapsto> v)\<rparr>"

definition Header_SetAll :: "(string \<Rightarrow> string option) \<Rightarrow> ResponseWriter \<Rightarrow> ResponseWriter" where
  "Header_SetAll h w = w\<lparr>rw_Header := rw_Header w ++ h\<rparr>"

definition Header_Get :: "string \<Rightarrow> ResponseWriter \<Rightarrow> string" where
  "Header_Get k w = (case rw_Header w k of None \<Rightarrow> [] | Some v \<Rightarrow> v)"

text \<open>
  \<^verbatim>\<open>WriteHeader\<close>: a call after the status is set is ignored; a code outside 100..999
  panics; a code 1xx other than 101 is sent as an informational response and leaves the
  status open; any other code is the status. After a panic the handler does not run any
  more, so every later call leaves the writer as it is.
\<close>

definition WriteHeader :: "int \<Rightarrow> ResponseWriter \<Rightarrow> ResponseWriter" where
  "WriteHeader code w =
     (if rw_Panic w \<noteq> None \<or> rw_Status w \<noteq> None then w
      else if code < 100 \<or> 999 < code then w\<lparr>rw_Panic := Some (InvalidWriteHeaderCode code)\<rparr>
      else if 100 \<le> code \<and> code \<le> 199 \<and> code \<noteq> 101
        then w\<lparr>rw_Informational := rw_Informational w @ [code]\<rparr>
      else w\<lparr>rw_Status := Some code\<rparr>)"

text \<open>A status 1xx, 204 or 304 allows no body: what is written then is dropped.\<close>

definition bodyAllowedForStatus :: "int \<Rightarrow> bool" where
  "bodyAllowedForStatus status =
     (\<not> (100 \<le> status \<and> status \<le> 199) \<and> status \<noteq> 204 \<and> status \<noteq> 304)"

text \<open>\<^verbatim>\<open>Write\<close>: without a status it sets 200 first.\<close>

definition Write :: "written \<Rightarrow> ResponseWriter \<Rightarrow> ResponseWriter" where
  "Write x w =
     (if rw_Panic w \<noteq> None then w
      else (let w' = WriteHeader 200 w in
            case rw_Status w' of
              None \<Rightarrow> w'
            | Some status \<Rightarrow>
                if bodyAllowedForStatus status then w'\<lparr>rw_Body := rw_Body w' @ [x]\<rparr> else w'))"

text \<open>
  \<^verbatim>\<open>json.NewEncoder(w).Encode(v)\<close>: a value the encoder refuses is not written (the
  error is returned, and the source ignores it).
\<close>

definition Encode :: "Lib \<Rightarrow> go_any \<Rightarrow> ResponseWriter \<Rightarrow> ResponseWriter" where
  "Encode lib v w = (if Encodable lib v then Write (JSON v) w else w)"

text \<open>\<^verbatim>\<open>http.Error(w, error, code)\<close>: two headers, the status, the text and a newline.\<close>

definition http_Error :: "string \<Rightarrow> int \<Rightarrow> ResponseWriter \<Rightarrow> ResponseWriter" where
  "http_Error msg code w =
     Write (Bytes (msg @ [CHR 0x0A]))
       (WriteHeader code
         (Header_Set ''X-Content-Type-Options'' ''nosniff''
           (Header_Set ''Content-Type'' ''text/plain; charset=utf-8'' w)))"

text \<open>
  The \<^verbatim>\<open>http.Request\<close>: \<open>r_Body\<close> is the bytes \<^verbatim>\<open>io.ReadAll\<close> returns, \<open>None\<close> when
  there is no body or reading it fails.
\<close>

record Request =
  r_Method :: string
  r_URL_Path :: string
  r_URL_Query :: "string \<Rightarrow> string list option"
  r_Header :: "string \<Rightarrow> string list option"
  r_Body :: "string option"

text \<open>\<^verbatim>\<open>if len(values) > 0 { m[key] = values[0] }\<close> for every key.\<close>

definition firstValues :: "(string \<Rightarrow> string list option) \<Rightarrow> (string \<Rightarrow> string option)" where
  "firstValues m = (\<lambda>k. case m k of Some (v # _) \<Rightarrow> Some v | _ \<Rightarrow> None)"

definition parseBody :: "Lib \<Rightarrow> string option \<Rightarrow> go_any" where
  "parseBody lib body =
     (case body of
        None \<Rightarrow> GNil
      | Some bodyBytes \<Rightarrow>
          if bodyBytes = [] then GNil
          else (case Unmarshal lib bodyBytes of
                  Some bodyData \<Rightarrow> bodyData
                | None \<Rightarrow> GString bodyBytes))"

definition buildRequestData :: "Lib \<Rightarrow> string \<Rightarrow> Request \<Rightarrow> RequestData" where
  "buildRequestData lib pathPattern r =
     \<lparr>rd_Method = r_Method r,
      rd_Path = r_URL_Path r,
      rd_Query = firstValues (r_URL_Query r),
      rd_Headers = firstValues (r_Header r),
      rd_Body = parseBody lib (r_Body r),
      rd_Params = extractPathValues pathPattern (r_URL_Path r)\<rparr>"

subsection \<open>The request handler of one path\<close>

text \<open>
  \<^verbatim>\<open>for i := range eps { if eps[i].Method == "" || eps[i].Method == r.Method { ...; break } }\<close>
\<close>

definition findEndpoint :: "Endpoint list \<Rightarrow> string \<Rightarrow> Endpoint option" where
  "findEndpoint eps method = find (\<lambda>ep. Method ep = [] \<or> Method ep = method) eps"

definition orDefault :: "int \<Rightarrow> int \<Rightarrow> int" where
  "orDefault statusCode d = (if statusCode = 0 then d else statusCode)"

definition defaultContentType :: "ResponseWriter \<Rightarrow> ResponseWriter" where
  "defaultContentType w =
     (if Header_Get ''Content-Type'' w = [] then Header_Set ''Content-Type'' ''application/json'' w
      else w)"

definition scriptFailed :: "string \<Rightarrow> go_any" where
  "scriptFailed details =
     GMap [''error'' \<mapsto> GString ''Script execution failed'', ''details'' \<mapsto> GString details]"

text \<open>
  The closure registered for a path: \<open>eps\<close> are the endpoints of the path in the order of
  the configuration, \<open>pathPattern\<close> is the path. It returns the response writer and the
  pool of runtimes after the request. The body of a failed script is a map of strings,
  which the encoder always accepts.
\<close>

definition handler ::
  "Lib \<Rightarrow> Endpoint list \<Rightarrow> string \<Rightarrow> Runtime list \<Rightarrow> Request
     \<Rightarrow> ResponseWriter \<times> Runtime list" where
  "handler lib eps pathPattern pool r =
     (case findEndpoint eps (r_Method r) of
        None \<Rightarrow> (http_Error ''Method not allowed'' 405 newResponseWriter, pool)
      | Some endpoint \<Rightarrow>
          (let w = defaultContentType (Header_SetAll (Headers endpoint) newResponseWriter) in
           if Script endpoint \<noteq> [] then
             (let reqData = buildRequestData lib pathPattern r;
                  (res, pool') = Execute lib pool (Script endpoint) reqData (Context endpoint)
              in case res of
                   Inl err \<Rightarrow> (Write (JSON (scriptFailed err)) (WriteHeader 500 w), pool')
                 | Inr result \<Rightarrow>
                     (let w = Header_SetAll (sr_Headers result) w;
                          statusCode = orDefault (orDefault (sr_StatusCode result)
                                                    (StatusCode endpoint)) 200
                      in (Encode lib (sr_Body result) (WriteHeader statusCode w), pool')))
           else
             (Encode lib (Response endpoint) (WriteHeader (orDefault (StatusCode endpoint) 200) w),
              pool)))"


subsection \<open>The OpenAPI document: the responses of an operation\<close>









subsection \<open>The route table and the registration of the routes\<close>







subsection \<open>Serving a request\<close>








text \<open>
  What the server sends when the handler is done: nothing when the handler panicked (the
  server recovers and closes the connection); otherwise the informational statuses, the
  status, 200 when the handler set none, the headers that the handler set, and the body,
  which is left out for a \<^verbatim>\<open>HEAD\<close> request.
\<close>

record Response =
  resp_Informational :: "int list"
  resp_Status :: int
  resp_Header :: "string \<Rightarrow> string option"
  resp_Body :: "written list"



subsection \<open>Example inputs\<close>

text \<open>
  A fragment of JavaScript for the examples: four scripts, each with the value and the
  effect on the global object that it has as a non-strict global program; \<open>msg\<close> is the
  text of the error for the script that throws. Every other script is outside the fragment.
\<close>

definition typeofBinding :: "js_binding option \<Rightarrow> string" where
  "typeofBinding b =
     (case b of
        None \<Rightarrow> ''undefined''
      | Some (BFunc f) \<Rightarrow> ''function''
      | Some (BValue (GBool x)) \<Rightarrow> ''boolean''
      | Some (BValue (GInt64 x)) \<Rightarrow> ''number''
      | Some (BValue (GFloat64 x)) \<Rightarrow> ''number''
      | Some (BValue (GString x)) \<Rightarrow> ''string''
      | Some _ \<Rightarrow> ''object'')"

definition exampleRunString ::
  "string \<Rightarrow> string \<Rightarrow> Runtime \<Rightarrow> (string + goja_Value) \<times> Runtime" where
  "exampleRunString msg script vm =
     (if script = ''leak = 1'' then
        (Inr (VExport (GInt64 1)), vm_Set ''leak'' (BValue (GInt64 1)) vm)
      else if script = ''leak = 1; throw leak'' then
        (Inl msg, vm_Set ''leak'' (BValue (GInt64 1)) vm)
      else if script = ''typeof leak'' then
        (Inr (VExport (GString (typeofBinding (globals vm ''leak'')))), vm)
      else if script = ''({body: 1})'' then
        (Inr (VExport (GMap [''body'' \<mapsto> GInt64 1])), vm)
      else (Inl ''outside the fragment'', vm))"

text \<open>
  The rest of the example library: the encoder of the examples takes the scalar values
  (every other value is outside the fragment), the conversion of an unrepresentable
  \<^verbatim>\<open>float64\<close> gives the least \<^verbatim>\<open>int\<close> (as on amd64), lower-casing is done for the letters
  A to Z, and no path has parameters.
\<close>

definition exampleEncodable :: "go_any \<Rightarrow> bool" where
  "exampleEncodable v =
     (case v of
        GNil \<Rightarrow> True
      | GBool b \<Rightarrow> True
      | GInt64 i \<Rightarrow> True
      | GFloat64 (Finite q) \<Rightarrow> True
      | GString s \<Rightarrow> True
      | _ \<Rightarrow> False)"

definition exampleToLower :: "string \<Rightarrow> string" where
  "exampleToLower s = lowerASCII s"

definition exampleLib :: "string \<Rightarrow> Lib" where
  "exampleLib msg =
     \<lparr>RunString = exampleRunString msg, Unmarshal = Map.empty,
      Encodable = exampleEncodable, IntOfFloat64 = (\<lambda>f. 0x8000000000000000),
      ToLower = exampleToLower, FindAllStringSubmatch = (\<lambda>s. [])\<rparr>"

definition exampleEndpoint :: "string \<Rightarrow> string \<Rightarrow> int \<Rightarrow> go_any \<Rightarrow> string \<Rightarrow> Endpoint" where
  "exampleEndpoint path method statusCode response script =
     \<lparr>Path = path, Method = method, StatusCode = statusCode, Response = response,
      Headers = Map.empty, Summary = [], Description = [], Tags = [],
      Script = script, Context = Map.empty\<rparr>"

definition exampleRequest :: "string \<Rightarrow> string \<Rightarrow> Request" where
  "exampleRequest method path =
     \<lparr>r_Method = method, r_URL_Path = path, r_URL_Query = Map.empty, r_Header = Map.empty,
      r_Body = None\<rparr>"

definition exampleStructured :: "go_any \<Rightarrow> string \<Rightarrow> go_any option" where
  "exampleStructured statusCode =
     [''body'' \<mapsto> GMap [''x'' \<mapsto> GInt64 1], ''statusCode'' \<mapsto> statusCode,
      ''headers'' \<mapsto> GMap [''X-Test'' \<mapsto> GString ''v'', ''X-Count'' \<mapsto> GInt64 3]]"

text \<open>A library whose interpreter returns the value \<open>v\<close> for every script.\<close>

definition constantLib :: "go_any \<Rightarrow> Lib" where
  "constantLib v = (exampleLib [])\<lparr>RunString := (\<lambda>script vm. (Inr (VExport v), vm))\<rparr>"

definition exampleWild :: Endpoint where
  "exampleWild = exampleEndpoint ''/a'' [] 201 (GInt64 1) []"

definition exampleGet :: Endpoint where
  "exampleGet = exampleEndpoint ''/a'' ''GET'' 202 (GInt64 2) []"


definition exampleRequestData :: RequestData where
  "exampleRequestData = buildRequestData (exampleLib []) ''/a'' (exampleRequest ''GET'' ''/a'')"


section \<open>Properties\<close>

subsection \<open>The identifier generator\<close>

lemma version_nibble: "drop_bit 4 ((b :: byte) AND 0x0f OR 0x40) AND 0x0f = 4"
  by simp

lemma and3_le: "unat ((y :: byte) AND 3) \<le> 3"
proof -
  have "unat (y AND 3) \<le> unat (3 :: byte)"
    by (rule word_and_le1 [THEN word_le_nat_alt [THEN iffD1]])
  then show ?thesis by simp
qed

lemma and3_cases: "(y :: byte) AND 3 = 0 \<or> y AND 3 = 1 \<or> y AND 3 = 2 \<or> y AND 3 = 3"
proof -
  define n where "n = unat (y AND 3)"
  have le: "n \<le> 3" unfolding n_def by (rule and3_le)
  have eq: "y AND 3 = of_nat n" unfolding n_def by simp
  from le have "n = 0 \<or> n = 1 \<or> n = 2 \<or> n = 3" by arith
  then show ?thesis unfolding eq by auto
qed

lemma variant_nibble: "drop_bit 4 ((b :: byte) AND 0x3f OR 0x80) AND 0x0f \<in> {8, 9, 10, 11}"
proof -
  have e: "drop_bit 4 (b AND 0x3f OR 0x80) AND 0x0f = ((drop_bit 4 b AND 3) OR 8) AND 0x0f"
    by simp
  from and3_cases[of "drop_bit 4 b"] show ?thesis
    unfolding e by (elim disjE) simp_all
qed

lemma hexChar_in: "set (hexChar b) \<subseteq> set hex"
proof -
  have "unat (b AND 0x0f) \<le> unat (0x0f :: byte)"
    by (rule word_and_le1 [THEN word_le_nat_alt [THEN iffD1]])
  then have "unat (b AND 0x0f) < length hex" by (simp add: hex_def)
  then show ?thesis unfolding hexChar_def by simp
qed

lemma hexByte_in: "set (hexByte b) \<subseteq> set hex"
  using hexChar_in by (simp add: hexByte_def)

lemma hexByte_len: "length (hexByte b) = 2"
  by (simp add: hexByte_def hexChar_def)

lemma hd_hexByte: "hd (hexByte b @ xs) = hex ! unat (drop_bit 4 b AND 0x0f)"
  by (simp add: hexByte_def hexChar_def)

lemma hd_version: "hd (hexByte (b AND 0x0f OR 0x40) @ xs) = CHR ''4''"
  unfolding hd_hexByte version_nibble by (simp add: hex_def)

lemma hd_variant: "hd (hexByte (b AND 0x3f OR 0x80) @ xs) \<in> {CHR ''8'', CHR ''9'', CHR ''a'', CHR ''b''}"
proof -
  from variant_nibble[of b] show ?thesis
    unfolding hd_hexByte by (elim insertE emptyE) (simp_all add: hex_def)
qed

lemma hexByte_all: "list_all (\<lambda>c. c \<in> set hex) (hexByte b)"
  unfolding list_all_iff using hexByte_in by blast

lemma clockBytes_len: "length (clockBytes now) = 16"
  by (simp add: clockBytes_def)

lemma len16: "length (b :: 'a list) = 16 \<Longrightarrow> \<exists>b0 b1 b2 b3 b4 b5 b6 b7 b8 b9 b10 b11 b12 b13 b14 b15. b = [b0,b1,b2,b3,b4,b5,b6,b7,b8,b9,b10,b11,b12,b13,b14,b15]"
  by (auto simp add: length_Suc_conv eval_nat_numeral) 

lemma uuid_fmt:
  "sprintf ''%x-%x-%x-%x-%x'' [ABytes x1, ABytes x2, ABytes x3, ABytes x4, ABytes x5] =
     hexBytes x1 @ ''-'' @ hexBytes x2 @ ''-'' @ hexBytes x3 @ ''-'' @ hexBytes x4 @ ''-'' @ hexBytes x5"
  by simp

lemma generateUUID_explicit:
  "\<exists>b0 b1 b2 b3 b4 b5 b6 b7 b8 b9 b10 b11 b12 b13 b14 b15.
     generateUUID now =
       (hexByte b0 @ hexByte b1 @ hexByte b2 @ hexByte b3) @ ''-'' @
       (hexByte b4 @ hexByte b5) @ ''-'' @
       (hexByte (b6 AND 0x0f OR 0x40) @ hexByte b7) @ ''-'' @
       (hexByte (b8 AND 0x3f OR 0x80) @ hexByte b9) @ ''-'' @
       (hexByte b10 @ hexByte b11 @ hexByte b12 @ hexByte b13 @ hexByte b14 @ hexByte b15)"
proof -
  obtain b0 b1 b2 b3 b4 b5 b6 b7 b8 b9 b10 b11 b12 b13 b14 b15 where
    b: "clockBytes now = [b0,b1,b2,b3,b4,b5,b6,b7,b8,b9,b10,b11,b12,b13,b14,b15]"
    using len16[OF clockBytes_len[of now]] by blast
  have "generateUUID now =
       (hexByte b0 @ hexByte b1 @ hexByte b2 @ hexByte b3) @ ''-'' @
       (hexByte b4 @ hexByte b5) @ ''-'' @
       (hexByte (b6 AND 0x0f OR 0x40) @ hexByte b7) @ ''-'' @
       (hexByte (b8 AND 0x3f OR 0x80) @ hexByte b9) @ ''-'' @
       (hexByte b10 @ hexByte b11 @ hexByte b12 @ hexByte b13 @ hexByte b14 @ hexByte b15)"
    unfolding generateUUID_def Let_def b uuid_fmt by (simp add: slice_def hexBytes_def)
  then show ?thesis by blast
qed

text \<open>
  Claim C9. Whatever the clock returns at each of its sixteen readings, \<^verbatim>\<open>generateUUID\<close>
  returns 36 characters: five groups of 8, 4, 4, 4 and 12 lowercase hexadecimal digits (the
  sixteen bytes, two digits each) separated by hyphens; the third group starts with the
  version digit 4 and the fourth with a variant digit 8, 9, a or b.
\<close>

theorem generateUUID_shape:
  "\<exists>g1 g2 g3 g4 g5.
     generateUUID now = g1 @ ''-'' @ g2 @ ''-'' @ g3 @ ''-'' @ g4 @ ''-'' @ g5 \<and>
     length g1 = 8 \<and> length g2 = 4 \<and> length g3 = 4 \<and> length g4 = 4 \<and> length g5 = 12 \<and>
     list_all (\<lambda>c. c \<in> set hex) (g1 @ g2 @ g3 @ g4 @ g5) \<and>
     hd g3 = CHR ''4'' \<and>
     hd g4 \<in> {CHR ''8'', CHR ''9'', CHR ''a'', CHR ''b''} \<and>
     length (generateUUID now) = 36"
proof -
  obtain b0 b1 b2 b3 b4 b5 b6 b7 b8 b9 b10 b11 b12 b13 b14 b15 where
    e: "generateUUID now =
       (hexByte b0 @ hexByte b1 @ hexByte b2 @ hexByte b3) @ ''-'' @
       (hexByte b4 @ hexByte b5) @ ''-'' @
       (hexByte (b6 AND 0x0f OR 0x40) @ hexByte b7) @ ''-'' @
       (hexByte (b8 AND 0x3f OR 0x80) @ hexByte b9) @ ''-'' @
       (hexByte b10 @ hexByte b11 @ hexByte b12 @ hexByte b13 @ hexByte b14 @ hexByte b15)"
    using generateUUID_explicit[of now] by blast
  define g1 where "g1 = hexByte b0 @ hexByte b1 @ hexByte b2 @ hexByte b3"
  define g2 where "g2 = hexByte b4 @ hexByte b5"
  define g3 where "g3 = hexByte (b6 AND 0x0f OR 0x40) @ hexByte b7"
  define g4 where "g4 = hexByte (b8 AND 0x3f OR 0x80) @ hexByte b9"
  define g5 where "g5 = hexByte b10 @ hexByte b11 @ hexByte b12 @ hexByte b13 @ hexByte b14 @ hexByte b15"
  have eq: "generateUUID now = g1 @ ''-'' @ g2 @ ''-'' @ g3 @ ''-'' @ g4 @ ''-'' @ g5"
    unfolding e g1_def g2_def g3_def g4_def g5_def ..
  have l1: "length g1 = 8" and l2: "length g2 = 4" and l3: "length g3 = 4"
    and l4: "length g4 = 4" and l5: "length g5 = 12"
    unfolding g1_def g2_def g3_def g4_def g5_def by (simp_all add: hexByte_len)
  have hx: "list_all (\<lambda>c. c \<in> set hex) (g1 @ g2 @ g3 @ g4 @ g5)"
    unfolding g1_def g2_def g3_def g4_def g5_def list_all_append
    by (intro conjI hexByte_all)
  have v: "hd g3 = CHR ''4''" unfolding g3_def by (rule hd_version)
  have r: "hd g4 \<in> {CHR ''8'', CHR ''9'', CHR ''a'', CHR ''b''}"
    unfolding g4_def by (rule hd_variant)
  have len: "length (generateUUID now) = 36"
    unfolding eq by (simp add: l1 l2 l3 l4 l5)
  from eq l1 l2 l3 l4 l5 hx v r len show ?thesis by blast
qed

theorem generateUUID_shape_witness:
  "generateUUID (\<lambda>i. 0x0123456789abcdef) = ''efcdab89-6745-4301-8000-000000000000'' \<and>
   (\<exists>g1 g2 g3 g4 g5.
     generateUUID (\<lambda>i. 0x0123456789abcdef) = g1 @ ''-'' @ g2 @ ''-'' @ g3 @ ''-'' @ g4 @ ''-'' @ g5 \<and>
     length g1 = 8 \<and> length g2 = 4 \<and> length g3 = 4 \<and> length g4 = 4 \<and> length g5 = 12 \<and>
     list_all (\<lambda>c. c \<in> set hex) (g1 @ g2 @ g3 @ g4 @ g5) \<and>
     hd g3 = CHR ''4'' \<and>
     hd g4 \<in> {CHR ''8'', CHR ''9'', CHR ''a'', CHR ''b''} \<and>
     length (generateUUID (\<lambda>i. 0x0123456789abcdef)) = 36)"
proof
  have cb: "clockBytes (\<lambda>i. 0x0123456789abcdef) =
      [0xef, 0xcd, 0xab, 0x89, 0x67, 0x45, 0x23, 0x01, 0, 0, 0, 0, 0, 0, 0, 0]"
    unfolding clockBytes_def by (simp add: upt_rec signed_drop_bit_beyond)
  show "generateUUID (\<lambda>i. 0x0123456789abcdef) = ''efcdab89-6745-4301-8000-000000000000''"
    unfolding generateUUID_def cb Let_def
    by (simp add: slice_def hexBytes_def hexByte_def hexChar_def hex_def)
  show "\<exists>g1 g2 g3 g4 g5.
     generateUUID (\<lambda>i. 0x0123456789abcdef) = g1 @ ''-'' @ g2 @ ''-'' @ g3 @ ''-'' @ g4 @ ''-'' @ g5 \<and>
     length g1 = 8 \<and> length g2 = 4 \<and> length g3 = 4 \<and> length g4 = 4 \<and> length g5 = 12 \<and>
     list_all (\<lambda>c. c \<in> set hex) (g1 @ g2 @ g3 @ g4 @ g5) \<and>
     hd g3 = CHR ''4'' \<and>
     hd g4 \<in> {CHR ''8'', CHR ''9'', CHR ''a'', CHR ''b''} \<and>
     length (generateUUID (\<lambda>i. 0x0123456789abcdef)) = 36"
    by (rule generateUUID_shape)
qed

subsection \<open>The method resolver\<close>

lemma handler_no_match:
  "findEndpoint eps (r_Method r) = None \<Longrightarrow>
   handler lib eps pathPattern pool r = (http_Error ''Method not allowed'' 405 newResponseWriter, pool)"
  by (simp add: handler_def)

lemma http_Error_writes:
  assumes "400 \<le> code" and "code \<le> 999"
  shows "rw_Status (http_Error msg code newResponseWriter) = Some code"
    and "rw_Body (http_Error msg code newResponseWriter) = [Bytes (msg @ [CHR 0x0A])]"
    and "rw_Panic (http_Error msg code newResponseWriter) = None"
    and "rw_Informational (http_Error msg code newResponseWriter) = []"
  using assms
  by (simp_all add: http_Error_def Write_def WriteHeader_def Header_Set_def newResponseWriter_def
      Let_def bodyAllowedForStatus_def)

lemma findEndpoint_single:
  "findEndpoint eps m = Some ep \<Longrightarrow> findEndpoint [ep] m = Some ep"
  by (auto simp add: findEndpoint_def find_Some_iff)

lemma handler_selected:
  "findEndpoint eps (r_Method r) = Some ep \<Longrightarrow>
   handler lib eps pathPattern pool r = handler lib [ep] pathPattern pool r"
  using findEndpoint_single[of eps "r_Method r" ep] by (simp add: handler_def)

text \<open>
  Claim C1. For the endpoints \<open>eps\<close> of one path, in the order of registration, and the
  method \<open>m\<close> of the request, the handler selects the entry at the least index whose method
  is empty or equal to \<open>m\<close> (equality of strings, so case matters), and answers as if that
  entry were the only one; a wildcard entry with no match before it is selected whatever
  comes after it, also an entry with exactly the method \<open>m\<close>. With no such entry the answer
  is status 405 with the text of \<^verbatim>\<open>http.Error\<close>, and the pool of runtimes is untouched:
  no script is run and no body is encoded.
\<close>

theorem method_resolver_first_match:
  "(findEndpoint eps m = Some ep \<longleftrightarrow>
      (\<exists>i<length eps. ep = eps ! i \<and> (Method (eps ! i) = [] \<or> Method (eps ! i) = m) \<and>
         (\<forall>j<i. Method (eps ! j) \<noteq> [] \<and> Method (eps ! j) \<noteq> m))) \<and>
   (findEndpoint eps m = None \<longleftrightarrow> (\<forall>e\<in>set eps. Method e \<noteq> [] \<and> Method e \<noteq> m)) \<and>
   (Method wild = [] \<and> (\<forall>e\<in>set before. Method e \<noteq> [] \<and> Method e \<noteq> m) \<longrightarrow>
      findEndpoint (before @ wild # between @ exact # after) m = Some wild) \<and>
   (findEndpoint eps (r_Method r) = Some ep \<longrightarrow>
      handler lib eps pathPattern pool r = handler lib [ep] pathPattern pool r) \<and>
   (findEndpoint eps (r_Method r) = None \<longrightarrow>
      (\<exists>w. handler lib eps pathPattern pool r = (w, pool) \<and> rw_Status w = Some 405 \<and>
           rw_Body w = [Bytes (''Method not allowed'' @ [CHR 0x0A])]))"
proof (intro conjI impI)
  show "findEndpoint eps m = Some ep \<longleftrightarrow>
      (\<exists>i<length eps. ep = eps ! i \<and> (Method (eps ! i) = [] \<or> Method (eps ! i) = m) \<and>
         (\<forall>j<i. Method (eps ! j) \<noteq> [] \<and> Method (eps ! j) \<noteq> m))"
    unfolding findEndpoint_def find_Some_iff by blast
  show "findEndpoint eps m = None \<longleftrightarrow> (\<forall>e\<in>set eps. Method e \<noteq> [] \<and> Method e \<noteq> m)"
    unfolding findEndpoint_def find_None_iff by blast
next
  assume a: "Method wild = [] \<and> (\<forall>e\<in>set before. Method e \<noteq> [] \<and> Method e \<noteq> m)"
  have "find (\<lambda>ep. Method ep = [] \<or> Method ep = m) (before @ wild # between @ exact # after) = Some wild"
    using a by (induction before) auto
  then show "findEndpoint (before @ wild # between @ exact # after) m = Some wild"
    by (simp add: findEndpoint_def)
next
  assume "findEndpoint eps (r_Method r) = Some ep"
  then show "handler lib eps pathPattern pool r = handler lib [ep] pathPattern pool r"
    by (rule handler_selected)
next
  assume "findEndpoint eps (r_Method r) = None"
  then have "handler lib eps pathPattern pool r = (http_Error ''Method not allowed'' 405 newResponseWriter, pool)"
    by (rule handler_no_match)
  then show "\<exists>w. handler lib eps pathPattern pool r = (w, pool) \<and> rw_Status w = Some 405 \<and>
           rw_Body w = [Bytes (''Method not allowed'' @ [CHR 0x0A])]"
    by (simp add: http_Error_writes)
qed

theorem method_resolver_first_match_witness:
  "findEndpoint [exampleWild, exampleGet] ''GET'' = Some exampleWild \<and>
   findEndpoint [exampleGet] ''POST'' = None \<and>
   findEndpoint [exampleGet] ''get'' = None \<and>
   handler (exampleLib []) [exampleWild, exampleGet] ''/a'' [] (exampleRequest ''GET'' ''/a'') =
     handler (exampleLib []) [exampleWild] ''/a'' [] (exampleRequest ''GET'' ''/a'') \<and>
   rw_Status (fst (handler (exampleLib []) [exampleGet] ''/a'' [] (exampleRequest ''POST'' ''/a''))) =
     Some 405"
proof -
  have w: "Method exampleWild = []" and g: "Method exampleGet = ''GET''"
    by (simp_all add: exampleWild_def exampleGet_def exampleEndpoint_def)
  have m1: "r_Method (exampleRequest ''GET'' ''/a'') = ''GET''"
    and m2: "r_Method (exampleRequest ''POST'' ''/a'') = ''POST''"
    by (simp_all add: exampleRequest_def)
  note t = method_resolver_first_match
  have a: "findEndpoint [exampleWild, exampleGet] ''GET'' = Some exampleWild"
    using t[where wild = exampleWild and before = "[]" and between = "[]"
        and exact = exampleGet and after = "[]" and m = "''GET''"] w
    by simp
  have b: "findEndpoint [exampleGet] ''POST'' = None"
    using t[where eps = "[exampleGet]" and m = "''POST''"] g by simp
  have c: "findEndpoint [exampleGet] ''get'' = None"
    using t[where eps = "[exampleGet]" and m = "''get''"] g by simp
  have d: "handler (exampleLib []) [exampleWild, exampleGet] ''/a'' [] (exampleRequest ''GET'' ''/a'') =
     handler (exampleLib []) [exampleWild] ''/a'' [] (exampleRequest ''GET'' ''/a'')"
    using t[where eps = "[exampleWild, exampleGet]" and ep = exampleWild
        and r = "exampleRequest ''GET'' ''/a''"] a m1
    by simp
  have "findEndpoint [exampleGet] (r_Method (exampleRequest ''POST'' ''/a'')) = None \<longrightarrow>
      (\<exists>w. handler (exampleLib []) [exampleGet] ''/a'' [] (exampleRequest ''POST'' ''/a'') = (w, []) \<and>
           rw_Status w = Some 405 \<and> rw_Body w = [Bytes (''Method not allowed'' @ [CHR 0x0A])])"
    using t[where eps = "[exampleGet]" and r = "exampleRequest ''POST'' ''/a''"
        and lib = "exampleLib []" and pathPattern = "''/a''" and pool = "[]"
        and m = "''POST''" and ep = exampleGet and wild = exampleWild and before = "[]"
        and between = "[]" and exact = exampleGet and after = "[]"]
    by blast
  with b m2 obtain w0 where
    "handler (exampleLib []) [exampleGet] ''/a'' [] (exampleRequest ''POST'' ''/a'') = (w0, [])"
    "rw_Status w0 = Some 405"
    by auto
  then have e: "rw_Status (fst (handler (exampleLib []) [exampleGet] ''/a'' []
      (exampleRequest ''POST'' ''/a''))) = Some 405"
    by simp
  from a b c d e show ?thesis by simp
qed

subsection \<open>Script results\<close>

lemma Execute_value:
  "RunString lib script (bindRequest req context (fst (pool_Get pool))) = (Inr v, vm') \<Longrightarrow>
   fst (Execute lib pool script req context) = Inr (handleResult lib v)"
  by (simp add: Execute_def Let_def case_prod_beta)

lemma handleResult_body:
  "m ''body'' = Some body \<Longrightarrow> sr_Body (handleResult lib (VExport (GMap m))) = body"
  by (simp add: handleResult_def)

lemma handleResult_int64:
  "m ''body'' = Some body \<Longrightarrow> m ''statusCode'' = Some (GInt64 code) \<Longrightarrow>
   sr_StatusCode (handleResult lib (VExport (GMap m))) = code"
  by (simp add: handleResult_def)

lemma handleResult_float64:
  "m ''body'' = Some body \<Longrightarrow> m ''statusCode'' = Some (GFloat64 code) \<Longrightarrow>
   sr_StatusCode (handleResult lib (VExport (GMap m))) = float64_to_int lib code"
  by (simp add: handleResult_def)

lemma float64_to_int_nonneg:
  "0 \<le> q \<Longrightarrow> \<lfloor>q\<rfloor> < 2 ^ 63 \<Longrightarrow> float64_to_int lib (Finite q) = \<lfloor>q\<rfloor>"
proof -
  assume q: "0 \<le> q" and b: "\<lfloor>q\<rfloor> < 2 ^ 63"
  have p: "(0::int) < 2 ^ 63" by simp
  from q have "0 \<le> \<lfloor>q\<rfloor>" by simp
  with p have "- (2 ^ 63) \<le> \<lfloor>q\<rfloor>" by linarith
  with q b show ?thesis by (simp add: float64_to_int_def)
qed

lemma float64_to_int_neg:
  "q < 0 \<Longrightarrow> - (2 ^ 63) \<le> \<lceil>q\<rceil> \<Longrightarrow> float64_to_int lib (Finite q) = \<lceil>q\<rceil>"
proof -
  assume q: "q < 0" and b: "- (2 ^ 63) \<le> \<lceil>q\<rceil>"
  have p: "(0::int) < 2 ^ 63" by simp
  from q have "\<lceil>q\<rceil> \<le> 0" by (simp add: ceiling_le_zero)
  with p have "\<lceil>q\<rceil> < 2 ^ 63" by linarith
  with q b show ?thesis by (simp add: float64_to_int_def)
qed

lemma float64_to_int_other:
  "f = PosInf \<or> f = NegInf \<or> f = NaN \<or>
   (\<exists>q. f = Finite q \<and> (0 \<le> q \<and> 2 ^ 63 \<le> \<lfloor>q\<rfloor> \<or> q < 0 \<and> \<lceil>q\<rceil> < - (2 ^ 63))) \<Longrightarrow>
   float64_to_int lib f = sint (IntOfFloat64 lib f)"
  by (auto simp add: float64_to_int_def)

lemma handleResult_no_status:
  "m ''body'' = Some body \<Longrightarrow> m ''statusCode'' = None \<Longrightarrow>
   sr_StatusCode (handleResult lib (VExport (GMap m))) = 200"
  by (simp add: handleResult_def)

lemma stringEntries_iff: "stringEntries h k = Some s \<longleftrightarrow> h k = Some (GString s)"
  by (simp add: stringEntries_def split: option.splits go_any.splits)

lemma handleResult_headers:
  "m ''body'' = Some body \<Longrightarrow> m ''headers'' = Some (GMap h) \<Longrightarrow>
   sr_Headers (handleResult lib (VExport (GMap m))) = stringEntries h"
  by (simp add: handleResult_def)

text \<open>
  Claim C5. When the script's value exports to a map with a \<^verbatim>\<open>body\<close> key, \<^verbatim>\<open>Execute\<close>
  returns a result whose body is the value of that key. A \<^verbatim>\<open>statusCode\<close> key holding a
  number replaces the default status 200: an \<^verbatim>\<open>int64\<close> is the status itself; a finite
  \<^verbatim>\<open>float64\<close> is the status with its fraction cut off (the floor of a value from 0 up,
  the ceiling of a value below 0) when that is an \<^verbatim>\<open>int\<close> of 64 bits; for any other
  \<^verbatim>\<open>float64\<close> (an infinity, a NaN, a value beyond 64 bits) the status is what the
  implementation's conversion gives. With a \<^verbatim>\<open>headers\<close> key holding a map, the result's
  headers are exactly the entries of that map whose value is a string, with that string:
  every other entry is dropped.
\<close>

theorem structured_result:
  assumes run: "RunString lib script (bindRequest req context (fst (pool_Get pool))) =
                  (Inr (VExport (GMap m)), vm')"
    and body: "m ''body'' = Some body"
  shows "\<exists>res. fst (Execute lib pool script req context) = Inr res \<and>
           sr_Body res = body \<and>
           (\<forall>code. m ''statusCode'' = Some (GInt64 code) \<longrightarrow> sr_StatusCode res = code) \<and>
           (\<forall>q. m ''statusCode'' = Some (GFloat64 (Finite q)) \<and> 0 \<le> q \<and> \<lfloor>q\<rfloor> < 2 ^ 63 \<longrightarrow>
                sr_StatusCode res = \<lfloor>q\<rfloor>) \<and>
           (\<forall>q. m ''statusCode'' = Some (GFloat64 (Finite q)) \<and> q < 0 \<and> - (2 ^ 63) \<le> \<lceil>q\<rceil> \<longrightarrow>
                sr_StatusCode res = \<lceil>q\<rceil>) \<and>
           (\<forall>f. m ''statusCode'' = Some (GFloat64 f) \<and>
                (f = PosInf \<or> f = NegInf \<or> f = NaN \<or>
                 (\<exists>q. f = Finite q \<and>
                      (0 \<le> q \<and> 2 ^ 63 \<le> \<lfloor>q\<rfloor> \<or> q < 0 \<and> \<lceil>q\<rceil> < - (2 ^ 63)))) \<longrightarrow>
                sr_StatusCode res = sint (IntOfFloat64 lib f)) \<and>
           (m ''statusCode'' = None \<longrightarrow> sr_StatusCode res = 200) \<and>
           (\<forall>h. m ''headers'' = Some (GMap h) \<longrightarrow>
                (\<forall>k s. sr_Headers res k = Some s \<longleftrightarrow> h k = Some (GString s)))"
proof -
  let ?res = "handleResult lib (VExport (GMap m))"
  have f1: "fst (Execute lib pool script req context) = Inr ?res"
    using run by (rule Execute_value)
  have f2: "sr_Body ?res = body" using body by (rule handleResult_body)
  have f3: "\<forall>code. m ''statusCode'' = Some (GInt64 code) \<longrightarrow> sr_StatusCode ?res = code"
    using body handleResult_int64 by blast
  have f4: "\<forall>q. m ''statusCode'' = Some (GFloat64 (Finite q)) \<and> 0 \<le> q \<and> \<lfloor>q\<rfloor> < 2 ^ 63 \<longrightarrow>
                sr_StatusCode ?res = \<lfloor>q\<rfloor>"
    using body by (simp add: handleResult_float64 float64_to_int_nonneg)
  have f5: "\<forall>q. m ''statusCode'' = Some (GFloat64 (Finite q)) \<and> q < 0 \<and> - (2 ^ 63) \<le> \<lceil>q\<rceil> \<longrightarrow>
                sr_StatusCode ?res = \<lceil>q\<rceil>"
    using body by (simp add: handleResult_float64 float64_to_int_neg)
  have f6: "\<forall>f. m ''statusCode'' = Some (GFloat64 f) \<and>
                (f = PosInf \<or> f = NegInf \<or> f = NaN \<or>
                 (\<exists>q. f = Finite q \<and>
                      (0 \<le> q \<and> 2 ^ 63 \<le> \<lfloor>q\<rfloor> \<or> q < 0 \<and> \<lceil>q\<rceil> < - (2 ^ 63)))) \<longrightarrow>
                sr_StatusCode ?res = sint (IntOfFloat64 lib f)"
  proof (intro allI impI)
    fix f
    assume a: "m ''statusCode'' = Some (GFloat64 f) \<and>
                (f = PosInf \<or> f = NegInf \<or> f = NaN \<or>
                 (\<exists>q. f = Finite q \<and>
                      (0 \<le> q \<and> 2 ^ 63 \<le> \<lfloor>q\<rfloor> \<or> q < 0 \<and> \<lceil>q\<rceil> < - (2 ^ 63))))"
    then have "sr_StatusCode ?res = float64_to_int lib f"
      using body handleResult_float64 by blast
    also have "\<dots> = sint (IntOfFloat64 lib f)"
      using a by (intro float64_to_int_other) blast
    finally show "sr_StatusCode ?res = sint (IntOfFloat64 lib f)" .
  qed
  have f7: "m ''statusCode'' = None \<longrightarrow> sr_StatusCode ?res = 200"
    using body handleResult_no_status by blast
  have f8: "\<forall>h. m ''headers'' = Some (GMap h) \<longrightarrow>
                (\<forall>k s. sr_Headers ?res k = Some s \<longleftrightarrow> h k = Some (GString s))"
    using body handleResult_headers stringEntries_iff by simp
  show ?thesis
    by (intro exI[of _ "?res"] conjI f1 f2 f3 f4 f5 f6 f7 f8)
qed

lemma constantLib_run:
  "RunString (constantLib v) script vm = (Inr (VExport v), vm)"
  "IntOfFloat64 (constantLib v) f = 0x8000000000000000"
  by (simp_all add: constantLib_def exampleLib_def)

lemma exampleStructured_at:
  "exampleStructured c ''body'' = Some (GMap [''x'' \<mapsto> GInt64 1])"
  "exampleStructured c ''statusCode'' = Some c"
  "exampleStructured c ''headers'' =
     Some (GMap [''X-Test'' \<mapsto> GString ''v'', ''X-Count'' \<mapsto> GInt64 3])"
  by (simp_all add: exampleStructured_def)

theorem structured_result_witness:
  "(\<exists>res. fst (Execute (constantLib (GMap (exampleStructured (GInt64 201)))) [] ''s'' exampleRequestData Map.empty) =
            Inr res \<and>
          sr_Body res = GMap [''x'' \<mapsto> GInt64 1] \<and> sr_StatusCode res = 201 \<and>
          sr_Headers res ''X-Test'' = Some ''v'' \<and> sr_Headers res ''X-Count'' = None) \<and>
   (\<exists>res. fst (Execute (constantLib (GMap (exampleStructured (GFloat64 (Finite (403 / 2)))))) []
                 ''s'' exampleRequestData Map.empty) = Inr res \<and>
          sr_StatusCode res = 201) \<and>
   (\<exists>res. fst (Execute (constantLib (GMap (exampleStructured (GFloat64 (Finite (- 403 / 2)))))) []
                 ''s'' exampleRequestData Map.empty) = Inr res \<and>
          sr_StatusCode res = - 201) \<and>
   (\<exists>res. fst (Execute (constantLib (GMap (exampleStructured (GFloat64 NaN)))) []
                 ''s'' exampleRequestData Map.empty) = Inr res \<and>
          sr_StatusCode res = - (2 ^ 63))"
proof (intro conjI)
  let ?m = "exampleStructured (GInt64 201)"
  have run: "RunString (constantLib (GMap ?m)) ''s'' (bindRequest exampleRequestData Map.empty (fst (pool_Get []))) =
       (Inr (VExport (GMap ?m)), bindRequest exampleRequestData Map.empty (fst (pool_Get [])))"
    by (rule constantLib_run)
  from structured_result[OF run exampleStructured_at(1)]
  show "\<exists>res. fst (Execute (constantLib (GMap ?m)) [] ''s'' exampleRequestData Map.empty) = Inr res \<and>
          sr_Body res = GMap [''x'' \<mapsto> GInt64 1] \<and> sr_StatusCode res = 201 \<and>
          sr_Headers res ''X-Test'' = Some ''v'' \<and> sr_Headers res ''X-Count'' = None"
  proof (elim exE conjE)
    fix res
    assume r: "fst (Execute (constantLib (GMap ?m)) [] ''s'' exampleRequestData Map.empty) = Inr res"
     "sr_Body res = GMap [''x'' \<mapsto> GInt64 1]"
     "\<forall>code. ?m ''statusCode'' = Some (GInt64 code) \<longrightarrow> sr_StatusCode res = code"
     "\<forall>h. ?m ''headers'' = Some (GMap h) \<longrightarrow>
                (\<forall>k s. sr_Headers res k = Some s \<longleftrightarrow> h k = Some (GString s))"
    from r(3) have s201: "sr_StatusCode res = 201" by (simp add: exampleStructured_at)
    from r(4) have hh: "\<forall>k s. sr_Headers res k = Some s \<longleftrightarrow>
        [''X-Test'' \<mapsto> GString ''v'', ''X-Count'' \<mapsto> GInt64 3] k = Some (GString s)"
      by (simp add: exampleStructured_at)
    have h1: "sr_Headers res ''X-Test'' = Some ''v''" using hh by simp
    have h2: "sr_Headers res ''X-Count'' = None"
    proof (cases "sr_Headers res ''X-Count''")
      case None then show ?thesis .
    next
      case (Some s)
      with hh have "[''X-Test'' \<mapsto> GString ''v'', ''X-Count'' \<mapsto> GInt64 3] ''X-Count'' = Some (GString s)"
        by blast
      then show ?thesis by simp
    qed
    from r(1) r(2) s201 h1 h2 show ?thesis by blast
  qed
next
  let ?m = "exampleStructured (GFloat64 (Finite (403 / 2)))"
  have run: "RunString (constantLib (GMap ?m)) ''s'' (bindRequest exampleRequestData Map.empty (fst (pool_Get []))) =
       (Inr (VExport (GMap ?m)), bindRequest exampleRequestData Map.empty (fst (pool_Get [])))"
    by (rule constantLib_run)
  from structured_result[OF run exampleStructured_at(1)]
  show "\<exists>res. fst (Execute (constantLib (GMap ?m)) [] ''s'' exampleRequestData Map.empty) = Inr res \<and>
          sr_StatusCode res = 201"
  proof (elim exE conjE)
    fix res
    assume r: "fst (Execute (constantLib (GMap ?m)) [] ''s'' exampleRequestData Map.empty) = Inr res"
     "\<forall>q. ?m ''statusCode'' = Some (GFloat64 (Finite q)) \<and> 0 \<le> q \<and> \<lfloor>q\<rfloor> < 2 ^ 63 \<longrightarrow>
                sr_StatusCode res = \<lfloor>q\<rfloor>"
    have v: "\<lfloor>403 / 2 :: rat\<rfloor> = 201" by (rule floor_unique) simp_all
    from r(2) have "?m ''statusCode'' = Some (GFloat64 (Finite (403 / 2))) \<and> (0::rat) \<le> 403 / 2 \<and>
        \<lfloor>403 / 2 :: rat\<rfloor> < 2 ^ 63 \<longrightarrow> sr_StatusCode res = \<lfloor>403 / 2 :: rat\<rfloor>"
      by (rule spec)
    then have "sr_StatusCode res = 201" unfolding v by (simp add: exampleStructured_at)
    with r(1) show ?thesis by blast
  qed
next
  let ?m = "exampleStructured (GFloat64 (Finite (- 403 / 2)))"
  have run: "RunString (constantLib (GMap ?m)) ''s'' (bindRequest exampleRequestData Map.empty (fst (pool_Get []))) =
       (Inr (VExport (GMap ?m)), bindRequest exampleRequestData Map.empty (fst (pool_Get [])))"
    by (rule constantLib_run)
  from structured_result[OF run exampleStructured_at(1)]
  show "\<exists>res. fst (Execute (constantLib (GMap ?m)) [] ''s'' exampleRequestData Map.empty) = Inr res \<and>
          sr_StatusCode res = - 201"
  proof (elim exE conjE)
    fix res
    assume r: "fst (Execute (constantLib (GMap ?m)) [] ''s'' exampleRequestData Map.empty) = Inr res"
     "\<forall>q. ?m ''statusCode'' = Some (GFloat64 (Finite q)) \<and> q < 0 \<and> - (2 ^ 63) \<le> \<lceil>q\<rceil> \<longrightarrow>
                sr_StatusCode res = \<lceil>q\<rceil>"
    have v: "\<lceil>- 403 / 2 :: rat\<rceil> = - 201" by (rule ceiling_unique) simp_all
    from r(2) have "?m ''statusCode'' = Some (GFloat64 (Finite (- 403 / 2))) \<and> (- 403 / 2 :: rat) < 0 \<and>
        - (2 ^ 63) \<le> \<lceil>- 403 / 2 :: rat\<rceil> \<longrightarrow> sr_StatusCode res = \<lceil>- 403 / 2 :: rat\<rceil>"
      by (rule spec)
    then have "sr_StatusCode res = - 201" unfolding v by (simp add: exampleStructured_at)
    with r(1) show ?thesis by blast
  qed
next
  let ?m = "exampleStructured (GFloat64 NaN)"
  have run: "RunString (constantLib (GMap ?m)) ''s'' (bindRequest exampleRequestData Map.empty (fst (pool_Get []))) =
       (Inr (VExport (GMap ?m)), bindRequest exampleRequestData Map.empty (fst (pool_Get [])))"
    by (rule constantLib_run)
  from structured_result[OF run exampleStructured_at(1)]
  show "\<exists>res. fst (Execute (constantLib (GMap ?m)) [] ''s'' exampleRequestData Map.empty) = Inr res \<and>
          sr_StatusCode res = - (2 ^ 63)"
  proof (elim exE conjE)
    fix res
    assume r: "fst (Execute (constantLib (GMap ?m)) [] ''s'' exampleRequestData Map.empty) = Inr res"
     "\<forall>f. ?m ''statusCode'' = Some (GFloat64 f) \<and>
                (f = PosInf \<or> f = NegInf \<or> f = NaN \<or>
                 (\<exists>q. f = Finite q \<and>
                      (0 \<le> q \<and> 2 ^ 63 \<le> \<lfloor>q\<rfloor> \<or> q < 0 \<and> \<lceil>q\<rceil> < - (2 ^ 63)))) \<longrightarrow>
                sr_StatusCode res = sint (IntOfFloat64 (constantLib (GMap ?m)) f)"
    from r(2) have "?m ''statusCode'' = Some (GFloat64 NaN) \<and>
                (NaN = PosInf \<or> NaN = NegInf \<or> NaN = NaN \<or>
                 (\<exists>q. NaN = Finite q \<and>
                      (0 \<le> q \<and> 2 ^ 63 \<le> \<lfloor>q\<rfloor> \<or> q < 0 \<and> \<lceil>q\<rceil> < - (2 ^ 63)))) \<longrightarrow>
                sr_StatusCode res = sint (IntOfFloat64 (constantLib (GMap ?m)) NaN)"
      by (rule spec)
    then have "sr_StatusCode res = sint (IntOfFloat64 (constantLib (GMap ?m)) NaN)"
      by (simp add: exampleStructured_at)
    then have "sr_StatusCode res = - (2 ^ 63)" by (simp add: constantLib_run)
    with r(1) show ?thesis by blast
  qed
qed

subsection \<open>Helpers for the handler\<close>

lemma example_fields:
  "Path (exampleEndpoint p m c v s) = p" "Method (exampleEndpoint p m c v s) = m"
  "StatusCode (exampleEndpoint p m c v s) = c" "Response (exampleEndpoint p m c v s) = v"
  "Script (exampleEndpoint p m c v s) = s" "Headers (exampleEndpoint p m c v s) = Map.empty"
  "Context (exampleEndpoint p m c v s) = Map.empty"
  by (simp_all add: exampleEndpoint_def)

lemma fresh_writer:
  "rw_Status (defaultContentType (Header_SetAll h newResponseWriter)) = None"
  "rw_Panic (defaultContentType (Header_SetAll h newResponseWriter)) = None"
  "rw_Body (defaultContentType (Header_SetAll h newResponseWriter)) = []"
  "rw_Informational (defaultContentType (Header_SetAll h newResponseWriter)) = []"
  "rw_Status (Header_SetAll h' (defaultContentType (Header_SetAll h newResponseWriter))) = None"
  "rw_Panic (Header_SetAll h' (defaultContentType (Header_SetAll h newResponseWriter))) = None"
  "rw_Body (Header_SetAll h' (defaultContentType (Header_SetAll h newResponseWriter))) = []"
  "rw_Informational (Header_SetAll h' (defaultContentType (Header_SetAll h newResponseWriter))) = []"
  by (simp_all add: defaultContentType_def Header_SetAll_def Header_Set_def newResponseWriter_def)

lemma Write_WriteHeader:
  assumes "rw_Status w = None" and "rw_Panic w = None" and "200 \<le> c" and "c \<le> 999"
  shows "rw_Status (Write x (WriteHeader c w)) = Some c"
    and "rw_Body (Write x (WriteHeader c w)) =
           (if bodyAllowedForStatus c then rw_Body w @ [x] else rw_Body w)"
    and "rw_Panic (Write x (WriteHeader c w)) = None"
    and "rw_Informational (Write x (WriteHeader c w)) = rw_Informational w"
  using assms by (simp_all add: Write_def WriteHeader_def Let_def)

lemma WriteHeader_invalid:
  assumes "rw_Status w = None" and "rw_Panic w = None" and "c < 100 \<or> 999 < c"
  shows "rw_Panic (Write x (WriteHeader c w)) = Some (InvalidWriteHeaderCode c)"
    and "rw_Body (Write x (WriteHeader c w)) = rw_Body w"
  using assms by (auto simp add: Write_def WriteHeader_def Let_def)


lemma example_encodable:
  "Encodable (exampleLib msg) (GInt64 i)" "Encodable (exampleLib msg) (GString s)"
  "Encodable (exampleLib msg) GNil"
  by (simp_all add: exampleLib_def exampleEncodable_def)

lemma find_example:
  "findEndpoint [exampleEndpoint p ''GET'' c v s] (r_Method (exampleRequest ''GET'' q)) =
     Some (exampleEndpoint p ''GET'' c v s)"
  by (simp add: findEndpoint_def example_fields exampleRequest_def)


subsection \<open>The registered routes\<close>








subsection \<open>Static endpoints\<close>





lemma handler_static:
  "findEndpoint eps (r_Method r) = Some ep \<Longrightarrow> Script ep = [] \<Longrightarrow>
   handler lib eps pathPattern pool r =
     (Encode lib (Response ep) (WriteHeader (orDefault (StatusCode ep) 200)
        (defaultContentType (Header_SetAll (Headers ep) newResponseWriter))), pool)"
  by (simp add: handler_def Let_def)

text \<open>
  The statuses left out below: a status outside 100..999 makes \<^verbatim>\<open>WriteHeader\<close> panic, and
  with the status 204 or 304 the body is dropped.
\<close>

lemma static_endpoint_other_statuses:
  assumes "findEndpoint eps (r_Method r) = Some ep" and "Script ep = []"
  shows "StatusCode ep \<noteq> 0 \<Longrightarrow> StatusCode ep < 100 \<or> 999 < StatusCode ep \<Longrightarrow>
           rw_Panic (fst (handler lib eps pathPattern pool r)) =
             Some (InvalidWriteHeaderCode (StatusCode ep))"
    and "StatusCode ep = 204 \<or> StatusCode ep = 304 \<Longrightarrow>
           rw_Status (fst (handler lib eps pathPattern pool r)) = Some (StatusCode ep) \<and>
           rw_Body (fst (handler lib eps pathPattern pool r)) = []"
proof -
  note h = handler_static[OF assms]
  show "rw_Panic (fst (handler lib eps pathPattern pool r)) =
             Some (InvalidWriteHeaderCode (StatusCode ep))"
    if "StatusCode ep \<noteq> 0" "StatusCode ep < 100 \<or> 999 < StatusCode ep"
    unfolding h using that
    by (auto simp add: Encode_def Write_def WriteHeader_def Let_def fresh_writer orDefault_def)
  show "rw_Status (fst (handler lib eps pathPattern pool r)) = Some (StatusCode ep) \<and>
           rw_Body (fst (handler lib eps pathPattern pool r)) = []"
    if "StatusCode ep = 204 \<or> StatusCode ep = 304"
    unfolding h using that
    by (auto simp add: Encode_def Write_def WriteHeader_def Let_def fresh_writer orDefault_def
        bodyAllowedForStatus_def)
qed




subsection \<open>Scripted endpoints: the status\<close>

lemma Execute_pool:
  "snd (Execute lib pool script req context) =
     ClearInterrupt (snd (RunString lib script (bindRequest req context (fst (pool_Get pool)))))
       # snd (pool_Get pool)"
  by (simp add: Execute_def Let_def case_prod_beta pool_Put_def split: sum.splits)

lemma Execute_result:
  "fst (Execute lib pool script req context) =
     map_sum id (handleResult lib)
       (fst (RunString lib script (bindRequest req context (fst (pool_Get pool)))))"
  by (simp add: Execute_def Let_def case_prod_beta split: sum.splits)

lemma globals_ClearInterrupt: "globals (ClearInterrupt vm) = globals vm"
  by (simp add: ClearInterrupt_def)

lemma leak_bindRequest:
  "globals (bindRequest req Map.empty vm) ''leak'' = globals vm ''leak''"
  by (simp add: bindRequest_def vm_SetContext_def vm_Set_def)

lemma example_leak_run:
  "RunString (exampleLib msg) ''leak = 1'' vm = (Inr (VExport (GInt64 1)), vm_Set ''leak'' (BValue (GInt64 1)) vm)"
  "RunString (exampleLib msg) ''leak = 1; throw leak'' vm = (Inl msg, vm_Set ''leak'' (BValue (GInt64 1)) vm)"
  "RunString (exampleLib msg) ''typeof leak'' vm = (Inr (VExport (GString (typeofBinding (globals vm ''leak'')))), vm)"
  "RunString (exampleLib msg) ''({body: 1})'' vm = (Inr (VExport (GMap [''body'' \<mapsto> GInt64 1])), vm)"
  by (simp_all add: exampleLib_def exampleRunString_def)

lemma writer_scripted:
  assumes "Encodable lib v" and "200 \<le> c" and "c \<le> 999"
  shows "rw_Status (Encode lib v (WriteHeader c (Header_SetAll h' (defaultContentType (Header_SetAll h newResponseWriter))))) = Some c"
    and "rw_Body (Encode lib v (WriteHeader c (Header_SetAll h' (defaultContentType (Header_SetAll h newResponseWriter))))) =
           (if bodyAllowedForStatus c then [JSON v] else [])"
  using assms by (simp_all add: Encode_def Write_WriteHeader fresh_writer)

lemma writer_failed:
  "rw_Status (Write (JSON v) (WriteHeader 500 (defaultContentType (Header_SetAll h newResponseWriter)))) = Some 500"
  "rw_Body (Write (JSON v) (WriteHeader 500 (defaultContentType (Header_SetAll h newResponseWriter)))) = [JSON v]"
  by (simp_all add: Write_WriteHeader fresh_writer bodyAllowedForStatus_def)

lemma handler_scripted:
  "findEndpoint eps (r_Method r) = Some ep \<Longrightarrow> Script ep \<noteq> [] \<Longrightarrow>
   handler lib eps pathPattern pool r =
     (case fst (Execute lib pool (Script ep) (buildRequestData lib pathPattern r) (Context ep)) of
        Inl err \<Rightarrow>
          Write (JSON (scriptFailed err)) (WriteHeader 500
            (defaultContentType (Header_SetAll (Headers ep) newResponseWriter)))
      | Inr result \<Rightarrow>
          Encode lib (sr_Body result)
            (WriteHeader (orDefault (orDefault (sr_StatusCode result) (StatusCode ep)) 200)
              (Header_SetAll (sr_Headers result)
                (defaultContentType (Header_SetAll (Headers ep) newResponseWriter)))),
      snd (Execute lib pool (Script ep) (buildRequestData lib pathPattern r) (Context ep)))"
  by (simp add: handler_def Let_def case_prod_beta split: sum.splits)

text \<open>
  Claim C3, at a failing input. The endpoint is scripted and configured with status 201;
  its script \<^verbatim>\<open>({body: 1})\<close> supplies no status. \<^verbatim>\<open>Execute\<close> starts the result with
  status 200, so the handler never falls back to the configured status: the response has
  status 200, not 201.
\<close>

theorem scripted_status_ignores_configured:
  "StatusCode (exampleEndpoint ''/x'' ''GET'' 201 GNil ''({body: 1})'') = 201 \<and>
   rw_Status (fst (handler (exampleLib msg) [exampleEndpoint ''/x'' ''GET'' 201 GNil ''({body: 1})'']
      ''/x'' pool (exampleRequest ''GET'' ''/x''))) = Some 200 \<and>
   rw_Body (fst (handler (exampleLib msg) [exampleEndpoint ''/x'' ''GET'' 201 GNil ''({body: 1})'']
      ''/x'' pool (exampleRequest ''GET'' ''/x''))) = [JSON (GInt64 1)]"
proof -
  have s: "Script (exampleEndpoint ''/x'' ''GET'' 201 GNil ''({body: 1})'') \<noteq> []"
    by (simp add: example_fields)
  note h = handler_scripted[OF find_example s]
  show ?thesis
    unfolding h
    by (simp add: example_fields Execute_result example_leak_run handleResult_def writer_scripted
        example_encodable bodyAllowedForStatus_def orDefault_def)
qed

subsection \<open>The pool of runtimes\<close>

lemma Execute_set_leak:
  "snd (Execute (exampleLib msg) [] ''leak = 1'' req Map.empty) =
     [ClearInterrupt (vm_Set ''leak'' (BValue (GInt64 1)) (bindRequest req Map.empty goja_New))]"
  unfolding Execute_pool example_leak_run by (simp add: pool_Get_def)

lemma Execute_throw_leak:
  "Execute (exampleLib msg) [] ''leak = 1; throw leak'' req Map.empty =
     (Inl msg, [ClearInterrupt (vm_Set ''leak'' (BValue (GInt64 1)) (bindRequest req Map.empty goja_New))])"
  by (simp add: prod_eq_iff Execute_pool Execute_result example_leak_run pool_Get_def)

lemma Execute_typeof:
  "fst (Execute (exampleLib msg) pool ''typeof leak'' req Map.empty) =
     Inr (wholeValue (GString (typeofBinding (globals (fst (pool_Get pool)) ''leak''))))"
  unfolding Execute_result example_leak_run
  by (simp add: leak_bindRequest handleResult_def)

lemma leak_after_set:
  "globals (ClearInterrupt (vm_Set ''leak'' (BValue (GInt64 1)) vm)) ''leak'' = Some (BValue (GInt64 1))"
  by (simp add: ClearInterrupt_def vm_Set_def)

text \<open>
  Claim C2, at a failing input. A first evaluation of \<^verbatim>\<open>leak = 1\<close> takes a new runtime and
  gives it back to the pool; \<^verbatim>\<open>Execute\<close> clears the interrupt flag only, so the global
  \<^verbatim>\<open>leak\<close> stays. A second evaluation, of \<^verbatim>\<open>typeof leak\<close>, that takes this runtime from
  the pool returns \<^verbatim>\<open>"number"\<close>; on a new runtime it returns \<^verbatim>\<open>"undefined"\<close>. The result
  of the second evaluation depends on what the first script did.
\<close>

theorem pooled_runtime_keeps_globals:
  "fst (Execute (exampleLib msg)
          (snd (Execute (exampleLib msg) [] ''leak = 1'' req1 Map.empty))
          ''typeof leak'' req2 Map.empty) = Inr (wholeValue (GString ''number'')) \<and>
   fst (Execute (exampleLib msg) [] ''typeof leak'' req2 Map.empty) =
     Inr (wholeValue (GString ''undefined''))"
  unfolding Execute_typeof Execute_set_leak
  by (simp add: pool_Get_def leak_after_set typeofBinding_def goja_New_def)

text \<open>
  Claim C6, at a failing input. The script \<^verbatim>\<open>leak = 1; throw leak\<close> fails: the response
  is status 500 with the JSON body \<^verbatim>\<open>{"error": "Script execution failed", "details": msg}\<close>,
  and the handler returns. The runtime goes back to the pool with the global the script
  made before it threw, so the failure is not local to the request: the next request, to
  another scripted endpoint, is answered \<^verbatim>\<open>"number"\<close> where it is answered
  \<^verbatim>\<open>"undefined"\<close> without the failed request before it.
\<close>

theorem script_failure_leaks_into_next_request:
  "rw_Status (fst (handler (exampleLib msg)
      [exampleEndpoint ''/fail'' ''GET'' 0 GNil ''leak = 1; throw leak''] ''/fail'' []
      (exampleRequest ''GET'' ''/fail''))) = Some 500 \<and>
   rw_Body (fst (handler (exampleLib msg)
      [exampleEndpoint ''/fail'' ''GET'' 0 GNil ''leak = 1; throw leak''] ''/fail'' []
      (exampleRequest ''GET'' ''/fail''))) = [JSON (scriptFailed msg)] \<and>
   rw_Body (fst (handler (exampleLib msg)
      [exampleEndpoint ''/probe'' ''GET'' 0 GNil ''typeof leak''] ''/probe''
      (snd (handler (exampleLib msg)
         [exampleEndpoint ''/fail'' ''GET'' 0 GNil ''leak = 1; throw leak''] ''/fail'' []
         (exampleRequest ''GET'' ''/fail'')))
      (exampleRequest ''GET'' ''/probe''))) = [JSON (GString ''number'')] \<and>
   rw_Body (fst (handler (exampleLib msg)
      [exampleEndpoint ''/probe'' ''GET'' 0 GNil ''typeof leak''] ''/probe'' []
      (exampleRequest ''GET'' ''/probe''))) = [JSON (GString ''undefined'')]"
proof -
  have s1: "Script (exampleEndpoint ''/fail'' ''GET'' 0 GNil ''leak = 1; throw leak'') \<noteq> []"
    and s2: "Script (exampleEndpoint ''/probe'' ''GET'' 0 GNil ''typeof leak'') \<noteq> []"
    by (simp_all add: example_fields)
  note h1 = handler_scripted[OF find_example s1]
  note h2 = handler_scripted[OF find_example s2]
  show ?thesis
    unfolding h1 h2
    by (simp add: example_fields Execute_throw_leak Execute_typeof writer_scripted writer_failed
        wholeValue_def example_encodable bodyAllowedForStatus_def orDefault_def
        pool_Get_def leak_after_set typeofBinding_def goja_New_def)
qed

subsection \<open>The health route\<close>






subsection \<open>Path parameters\<close>

lemma braces_iff:
  "prefix ''{'' part \<and> suffix ''}'' part \<and> slice 1 (length part - 1) part = name \<longleftrightarrow>
   part = ''{'' @ name @ ''}''"
proof
  assume a: "prefix ''{'' part \<and> suffix ''}'' part \<and> slice 1 (length part - 1) part = name"
  then obtain xs where xs: "part = CHR ''{'' # xs" by (auto simp add: prefix_def)
  from a obtain ys where ys: "part = ys @ ''}''" by (auto simp add: suffix_def)
  from xs ys have "xs \<noteq> []" by auto
  with xs ys obtain mid where mid: "xs = mid @ ''}''"
    by (metis append_butlast_last_id last_ConsR last_snoc)
  from a xs mid have "name = mid" by (simp add: slice_def)
  with xs mid show "part = ''{'' @ name @ ''}''" by simp
next
  assume "part = ''{'' @ name @ ''}''"
  then show "prefix ''{'' part \<and> suffix ''}'' part \<and> slice 1 (length part - 1) part = name"
    by (simp add: slice_def suffix_def)
qed

lemma bindPart_at:
  "bindPart (part, seg) m name = (if part = ''{'' @ name @ ''}'' then Some seg else m name)"
  using braces_iff[of part name] by (auto simp add: bindPart_def Let_def)

lemma fold_bindPart:
  "fold bindPart ps m name =
     (case filter (\<lambda>p. fst p = ''{'' @ name @ ''}'') ps of
        [] \<Rightarrow> m name
      | q # qs \<Rightarrow> Some (snd (last (q # qs))))"
proof (induction ps arbitrary: m)
  case Nil
  then show ?case by simp
next
  case (Cons p ps)
  obtain part seg where p: "p = (part, seg)" by (cases p)
  have "fold bindPart (p # ps) m name = fold bindPart ps (bindPart p m) name" by simp
  also have "\<dots> = (case filter (\<lambda>p. fst p = ''{'' @ name @ ''}'') ps of
        [] \<Rightarrow> bindPart p m name
      | q # qs \<Rightarrow> Some (snd (last (q # qs))))"
    by (rule Cons.IH)
  also have "\<dots> = (case filter (\<lambda>p. fst p = ''{'' @ name @ ''}'') (p # ps) of
        [] \<Rightarrow> m name
      | q # qs \<Rightarrow> Some (snd (last (q # qs))))"
    unfolding p bindPart_at by (simp split: list.splits)
  finally show ?case .
qed

lemma last_filter_index:
  "(filter P ps \<noteq> [] \<and> last (filter P ps) = x) \<longleftrightarrow>
   (\<exists>i<length ps. ps ! i = x \<and> P x \<and> (\<forall>j. i < j \<and> j < length ps \<longrightarrow> \<not> P (ps ! j)))"
proof (induction ps rule: rev_induct)
  case Nil
  then show ?case by simp
next
  case (snoc y ps)
  show ?case
  proof (cases "P y")
    case True
    have "(\<exists>i<length (ps @ [y]). (ps @ [y]) ! i = x \<and> P x \<and>
            (\<forall>j. i < j \<and> j < length (ps @ [y]) \<longrightarrow> \<not> P ((ps @ [y]) ! j))) \<longleftrightarrow> x = y"
    proof
      assume "\<exists>i<length (ps @ [y]). (ps @ [y]) ! i = x \<and> P x \<and>
            (\<forall>j. i < j \<and> j < length (ps @ [y]) \<longrightarrow> \<not> P ((ps @ [y]) ! j))"
      then obtain i where i: "i < length (ps @ [y])" "(ps @ [y]) ! i = x"
        and l: "\<forall>j. i < j \<and> j < length (ps @ [y]) \<longrightarrow> \<not> P ((ps @ [y]) ! j)" by blast
      have "i = length ps"
      proof (rule ccontr)
        assume "i \<noteq> length ps"
        with i have "i < length ps" by simp
        then have "i < length ps \<and> length ps < length (ps @ [y])" by simp
        with l have "\<not> P ((ps @ [y]) ! length ps)" by blast
        with True show False by simp
      qed
      with i show "x = y" by simp
    next
      assume "x = y"
      with True show "\<exists>i<length (ps @ [y]). (ps @ [y]) ! i = x \<and> P x \<and>
            (\<forall>j. i < j \<and> j < length (ps @ [y]) \<longrightarrow> \<not> P ((ps @ [y]) ! j))"
        by (intro exI[of _ "length ps"]) auto
    qed
    with True show ?thesis by auto
  next
    case False
    have "(\<exists>i<length (ps @ [y]). (ps @ [y]) ! i = x \<and> P x \<and>
            (\<forall>j. i < j \<and> j < length (ps @ [y]) \<longrightarrow> \<not> P ((ps @ [y]) ! j))) \<longleftrightarrow>
          (\<exists>i<length ps. ps ! i = x \<and> P x \<and> (\<forall>j. i < j \<and> j < length ps \<longrightarrow> \<not> P (ps ! j)))"
      (is "?L \<longleftrightarrow> ?R")
    proof
      assume ?L
      then obtain i where i: "i < length (ps @ [y])" "(ps @ [y]) ! i = x" "P x"
        and l: "\<forall>j. i < j \<and> j < length (ps @ [y]) \<longrightarrow> \<not> P ((ps @ [y]) ! j)" by blast
      have il: "i < length ps"
      proof (rule ccontr)
        assume "\<not> i < length ps"
        with i(1) have "i = length ps" by simp
        with i(2) have "x = y" by simp
        with i(3) False show False by simp
      qed
      have "\<forall>j. i < j \<and> j < length ps \<longrightarrow> \<not> P (ps ! j)"
      proof (intro allI impI)
        fix j assume j: "i < j \<and> j < length ps"
        with l have "\<not> P ((ps @ [y]) ! j)" by simp
        with j show "\<not> P (ps ! j)" by (simp add: nth_append)
      qed
      with il i show ?R by (auto simp add: nth_append)
    next
      assume ?R
      then obtain i where i: "i < length ps" "ps ! i = x" "P x"
        and l: "\<forall>j. i < j \<and> j < length ps \<longrightarrow> \<not> P (ps ! j)" by blast
      have "\<forall>j. i < j \<and> j < length (ps @ [y]) \<longrightarrow> \<not> P ((ps @ [y]) ! j)"
        using l False by (auto simp add: nth_append less_Suc_eq)
      with i show ?L by (intro exI[of _ i]) (simp add: nth_append)
    qed
    with False snoc.IH show ?thesis by simp
  qed
qed

text \<open>
  Claim C4, as the code has it. \<^verbatim>\<open>extractPathValues\<close> returns the empty map when the
  pattern and the path split at \<^verbatim>\<open>/\<close> into different numbers of segments. With equal
  numbers it binds \<open>name\<close> to \<open>v\<close> exactly when some segment of the pattern is \<^verbatim>\<open>{name}\<close>,
  the segment of the path at the same position is \<open>v\<close>, and no later segment of the pattern
  is \<^verbatim>\<open>{name}\<close> again; the other segments of the pattern are not compared with the path
  (that is left to the router). The pattern \<^verbatim>\<open>/api/users/{id}/posts/{postId}\<close> and the
  path \<^verbatim>\<open>/api/users/42/posts/7\<close> give exactly \<^verbatim>\<open>id\<close> bound to 42 and \<^verbatim>\<open>postId\<close>
  bound to 7.
\<close>

theorem extractPathValues_bindings:
  "(length (Split pattern CHR ''/'') \<noteq> length (Split path CHR ''/'') \<longrightarrow>
      extractPathValues pattern path = Map.empty) \<and>
   (length (Split pattern CHR ''/'') = length (Split path CHR ''/'') \<longrightarrow>
      (extractPathValues pattern path name = Some v \<longleftrightarrow>
         (\<exists>i<length (Split pattern CHR ''/'').
            Split pattern CHR ''/'' ! i = ''{'' @ name @ ''}'' \<and>
            Split path CHR ''/'' ! i = v \<and>
            (\<forall>j. i < j \<and> j < length (Split pattern CHR ''/'') \<longrightarrow>
                 Split pattern CHR ''/'' ! j \<noteq> ''{'' @ name @ ''}'')))) \<and>
   extractPathValues ''/api/users/{id}/posts/{postId}'' ''/api/users/42/posts/7'' =
     [''id'' \<mapsto> ''42'', ''postId'' \<mapsto> ''7'']"
proof (intro conjI impI)
  show "extractPathValues pattern path = Map.empty"
    if "length (Split pattern CHR ''/'') \<noteq> length (Split path CHR ''/'')"
    using that by (simp add: extractPathValues_def Let_def)
next
  let ?pp = "Split pattern CHR ''/''" and ?cp = "Split path CHR ''/''"
  let ?P = "\<lambda>p. fst p = ''{'' @ name @ ''}''"
  assume len: "length ?pp = length ?cp"
  let ?ps = "zip ?pp ?cp"
  have e: "extractPathValues pattern path name =
      (case filter ?P ?ps of [] \<Rightarrow> None | q # qs \<Rightarrow> Some (snd (last (q # qs))))"
    using len by (simp add: extractPathValues_def Let_def fold_bindPart)
  have "extractPathValues pattern path name = Some v \<longleftrightarrow>
      (\<exists>x. (filter ?P ?ps \<noteq> [] \<and> last (filter ?P ?ps) = x) \<and> snd x = v)"
    unfolding e by (cases "filter ?P ?ps") auto
  also have "\<dots> \<longleftrightarrow> (\<exists>x. (\<exists>i<length ?ps. ?ps ! i = x \<and> ?P x \<and>
        (\<forall>j. i < j \<and> j < length ?ps \<longrightarrow> \<not> ?P (?ps ! j))) \<and> snd x = v)"
    unfolding last_filter_index ..
  also have "\<dots> \<longleftrightarrow> (\<exists>i<length ?pp. ?pp ! i = ''{'' @ name @ ''}'' \<and> ?cp ! i = v \<and>
            (\<forall>j. i < j \<and> j < length ?pp \<longrightarrow> ?pp ! j \<noteq> ''{'' @ name @ ''}''))"
    using len by auto
  finally show "extractPathValues pattern path name = Some v \<longleftrightarrow>
      (\<exists>i<length ?pp. ?pp ! i = ''{'' @ name @ ''}'' \<and> ?cp ! i = v \<and>
            (\<forall>j. i < j \<and> j < length ?pp \<longrightarrow> ?pp ! j \<noteq> ''{'' @ name @ ''}''))" .
next
  show "extractPathValues ''/api/users/{id}/posts/{postId}'' ''/api/users/42/posts/7'' =
     [''id'' \<mapsto> ''42'', ''postId'' \<mapsto> ''7'']"
    by (simp add: extractPathValues_def Let_def bindPart_def slice_def suffix_to_prefix)
qed

theorem extractPathValues_bindings_witness:
  "extractPathValues ''/a/{id}'' ''/a/5/x'' = Map.empty \<and>
   extractPathValues ''/a/{id}'' ''/a/5'' ''id'' = Some ''5''"
proof -
  have s1: "Split ''/a/{id}'' CHR ''/'' = [[], ''a'', ''{id}'']"
    and s2: "Split ''/a/5/x'' CHR ''/'' = [[], ''a'', ''5'', ''x'']"
    and s3: "Split ''/a/5'' CHR ''/'' = [[], ''a'', ''5'']"
    by simp_all
  have a: "extractPathValues ''/a/{id}'' ''/a/5/x'' = Map.empty"
    using extractPathValues_bindings[of "''/a/{id}''" "''/a/5/x''"] s1 s2 by simp
  have i: "\<exists>i<length (Split ''/a/{id}'' CHR ''/'').
            Split ''/a/{id}'' CHR ''/'' ! i = ''{'' @ ''id'' @ ''}'' \<and>
            Split ''/a/5'' CHR ''/'' ! i = ''5'' \<and>
            (\<forall>j. i < j \<and> j < length (Split ''/a/{id}'' CHR ''/'') \<longrightarrow>
                 Split ''/a/{id}'' CHR ''/'' ! j \<noteq> ''{'' @ ''id'' @ ''}'')"
    unfolding s1 s3 by (intro exI[of _ 2]) simp
  have l: "length (Split ''/a/{id}'' CHR ''/'') = length (Split ''/a/5'' CHR ''/'')"
    unfolding s1 s3 by simp
  have b: "extractPathValues ''/a/{id}'' ''/a/5'' ''id'' = Some ''5''"
    using extractPathValues_bindings[of "''/a/{id}''" "''/a/5''" "''id''" "''5''"] i l by blast
  from a b show ?thesis by blast
qed

text \<open>
  The claim as stated fails where a literal segment differs: the pattern
  \<^verbatim>\<open>/api/users/{id}\<close> and the path \<^verbatim>\<open>/api/items/42\<close> have three segments each, and the
  result binds \<^verbatim>\<open>id\<close> although \<^verbatim>\<open>users\<close> is not \<^verbatim>\<open>items\<close>; it is not the empty map.
\<close>

theorem extractPathValues_literal_mismatch:
  "Split ''/api/users/{id}'' CHR ''/'' = [[], ''api'', ''users'', ''{id}''] \<and>
   Split ''/api/items/42'' CHR ''/'' = [[], ''api'', ''items'', ''42''] \<and>
   extractPathValues ''/api/users/{id}'' ''/api/items/42'' ''id'' = Some ''42''"
  by (simp add: extractPathValues_def Let_def bindPart_def slice_def suffix_to_prefix)

subsection \<open>The OpenAPI document\<close>



end
